theory Spec2Isabelle
  imports Main "HOL-Library.Sublist"
begin

section \<open>Data model of the realtime core\<close>

text \<open>
  The embedding follows \<^verbatim>\<open>src/realtime/RealtimeClient.ts\<close>,
  \<^verbatim>\<open>src/realtime/RealtimeChannel.ts\<close>, \<^verbatim>\<open>src/realtime/types.ts\<close> and the
  \<^verbatim>\<open>REALTIME_CONFIG\<close> block of \<^verbatim>\<open>src/lib/constants.ts\<close>.
\<close>

text \<open>\<^verbatim>\<open>ConnectionState\<close> of types.ts.\<close>

datatype ConnectionState = CONNECTING | CONNECTED | DISCONNECTED | RECONNECTING

text \<open>\<^verbatim>\<open>RealtimeEventType\<close> of types.ts; \<open>WILDCARD\<close> is the literal \<^verbatim>\<open>'*'\<close>.\<close>

datatype RealtimeEventType = INSERT | UPDATE | DELETE | WILDCARD

text \<open>\<^verbatim>\<open>RealtimePayload\<close>; the two row objects are kept as optional field lists.\<close>

record RealtimePayload =
  ptype :: RealtimeEventType
  table :: string
  schema :: string
  commit_timestamp :: string
  new_row :: "(string \<times> string) list option"
  old_row :: "(string \<times> string) list option"

text \<open>
  The three object literals handed to \<^verbatim>\<open>sendMessage\<close>:
  \<^verbatim>\<open>{type:'subscribe', channel}\<close>, \<^verbatim>\<open>{type:'unsubscribe', channel}\<close>, \<^verbatim>\<open>{type:'heartbeat'}\<close>.
\<close>

datatype frame = SubscribeFrame string | UnsubscribeFrame string | HeartbeatFrame

text \<open>
  A callback is known by its identity (a closure reference), here a number.
  A JavaScript \<^verbatim>\<open>Set\<close> of callbacks is a duplicate-free list in insertion order,
  the \<^verbatim>\<open>Map\<close> from event type to such a set is a partial function.
\<close>

type_synonym handler = nat

record RealtimeChannel =
  name :: string
  handlers :: "RealtimeEventType \<rightharpoonup> handler list"
  subscribed :: bool

text \<open>
  What the surroundings decide: whether the \<open>i\<close>-th call of \<^verbatim>\<open>storage.getItem\<close>
  throws, whether the \<open>k\<close>-th call of the \<^verbatim>\<open>WebSocket\<close> constructor throws, whether
  the \<open>i\<close>-th call of \<^verbatim>\<open>ws.send\<close> (with its \<^verbatim>\<open>JSON.stringify\<close>) throws, and
  whether a callback throws on a payload.
\<close>

record environment =
  getItem_throws :: "nat \<Rightarrow> bool"
  ctor_throws :: "nat \<Rightarrow> bool"
  send_throws :: "nat \<Rightarrow> bool"
  handler_throws :: "handler \<Rightarrow> RealtimePayload \<Rightarrow> bool"

text \<open>
  The fields of \<^verbatim>\<open>RealtimeClient\<close> (\<open>ws\<close> to \<open>messageQueue\<close>), followed by the
  parts of the world the class acts on: the store of Channel objects (the
  registry \<open>channels\<close> holds references into it, in the insertion order of the
  JavaScript \<^verbatim>\<open>Map\<close>), and logs of what was done to sockets and callbacks.
  A socket is known by the index of the constructor call that made it; a pending
  reconnect timer by its delay in milliseconds, the heartbeat timer by its period.
  \<open>uncaught\<close> counts the exceptions that \<^verbatim>\<open>connect\<close> lets through to its caller.
\<close>

record RealtimeClient =
  ws :: "nat option"
  channels :: "(string \<times> nat) list"
  connectionState :: ConnectionState
  reconnectAttempts :: nat
  reconnectTimeout :: "nat option"
  heartbeatInterval :: "nat option"
  messageQueue :: "frame list"
  heap :: "nat \<rightharpoonup> RealtimeChannel"
  next_ref :: nat
  getItem_calls :: nat
  uncaught :: nat
  ws_attempts :: nat
  sockets :: "nat list"
  ws_closed :: "nat list"
  send_calls :: nat
  wire :: "(nat \<times> frame) list"
  invoked :: "(handler \<times> RealtimePayload) list"

text \<open>\<^verbatim>\<open>REALTIME_CONFIG\<close> of constants.ts.\<close>

definition HEARTBEAT_INTERVAL_MS :: nat where
  "HEARTBEAT_INTERVAL_MS = 30000"

definition RECONNECT_DELAY_MS :: nat where
  "RECONNECT_DELAY_MS = 1000"

definition MAX_RECONNECT_DELAY_MS :: nat where
  "MAX_RECONNECT_DELAY_MS = 30000"

definition RECONNECT_BACKOFF_MULTIPLIER :: nat where
  "RECONNECT_BACKOFF_MULTIPLIER = 2"

text \<open>A freshly constructed client (the field initialisers of the class).\<close>

definition new_client :: RealtimeClient where
  "new_client = \<lparr> ws = None, channels = [], connectionState = DISCONNECTED,
     reconnectAttempts = 0, reconnectTimeout = None, heartbeatInterval = None,
     messageQueue = [], heap = Map.empty, next_ref = 0, getItem_calls = 0,
     uncaught = 0, ws_attempts = 0,
     sockets = [], ws_closed = [], send_calls = 0, wire = [], invoked = [] \<rparr>"

section \<open>RealtimeClient\<close>

text \<open>
  \<^verbatim>\<open>sendMessage\<close>: queue unless connected with a socket; otherwise hand the frame
  to \<^verbatim>\<open>ws.send\<close>, and queue it when that throws. The source tests
  \<^verbatim>\<open>connectionState !== 'CONNECTED' || !this.ws\<close>; here the handle is looked at
  first, which gives the same three branches. \<open>wire\<close> records what \<^verbatim>\<open>ws.send\<close>
  accepted, with the socket it was given to.
\<close>

definition sendMessage :: "environment \<Rightarrow> frame \<Rightarrow> RealtimeClient \<Rightarrow> RealtimeClient" where
  "sendMessage env message s =
     (case ws s of
        None \<Rightarrow> s\<lparr>messageQueue := messageQueue s @ [message]\<rparr>
      | Some k \<Rightarrow>
          if connectionState s \<noteq> CONNECTED
          then s\<lparr>messageQueue := messageQueue s @ [message]\<rparr>
          else if send_throws env (send_calls s)
          then s\<lparr>send_calls := send_calls s + 1,
                 messageQueue := messageQueue s @ [message]\<rparr>
          else s\<lparr>send_calls := send_calls s + 1,
                 wire := wire s @ [(k, message)]\<rparr>)"

text \<open>\<^verbatim>\<open>flushMessageQueue\<close>: copy the queue, empty it, send each copy in order.\<close>

definition flushMessageQueue :: "environment \<Rightarrow> RealtimeClient \<Rightarrow> RealtimeClient" where
  "flushMessageQueue env s =
     (let queue = messageQueue s
      in fold (sendMessage env) queue (s\<lparr>messageQueue := []\<rparr>))"

text \<open>\<^verbatim>\<open>resubscribeChannels\<close>: one subscribe frame per subscribed registry entry.\<close>

definition resubscribe_one ::
    "environment \<Rightarrow> string \<times> nat \<Rightarrow> RealtimeClient \<Rightarrow> RealtimeClient" where
  "resubscribe_one env entry s =
     (case heap s (snd entry) of
        None \<Rightarrow> s
      | Some channel \<Rightarrow>
          if subscribed channel then sendMessage env (SubscribeFrame (name channel)) s
          else s)"

definition resubscribeChannels :: "environment \<Rightarrow> RealtimeClient \<Rightarrow> RealtimeClient" where
  "resubscribeChannels env s = fold (resubscribe_one env) (channels s) s"

definition stopHeartbeat :: "RealtimeClient \<Rightarrow> RealtimeClient" where
  "stopHeartbeat s = s\<lparr>heartbeatInterval := None\<rparr>"

definition startHeartbeat :: "RealtimeClient \<Rightarrow> RealtimeClient" where
  "startHeartbeat s = (stopHeartbeat s)\<lparr>heartbeatInterval := Some HEARTBEAT_INTERVAL_MS\<rparr>"

definition stopReconnect :: "RealtimeClient \<Rightarrow> RealtimeClient" where
  "stopReconnect s = s\<lparr>reconnectTimeout := None\<rparr>"

text \<open>
  The delay of \<^verbatim>\<open>scheduleReconnect\<close>:
  \<^verbatim>\<open>Math.min(RECONNECT_DELAY_MS * Math.pow(MULTIPLIER, attempts), MAX_RECONNECT_DELAY_MS)\<close>.
  Powers of two are exact in a double until they overflow to infinity, where
  the minimum is the cap as well, so natural numbers give the same value.
\<close>

definition reconnect_delay :: "nat \<Rightarrow> nat" where
  "reconnect_delay attempts =
     min (RECONNECT_DELAY_MS * RECONNECT_BACKOFF_MULTIPLIER ^ attempts) MAX_RECONNECT_DELAY_MS"

definition scheduleReconnect :: "RealtimeClient \<Rightarrow> RealtimeClient" where
  "scheduleReconnect s =
     (if reconnectTimeout s \<noteq> None then s
      else s\<lparr>reconnectTimeout := Some (reconnect_delay (reconnectAttempts s))\<rparr>)"

definition handleDisconnect :: "RealtimeClient \<Rightarrow> RealtimeClient" where
  "handleDisconnect s =
     (let s1 = (stopHeartbeat s)\<lparr>ws := None\<rparr>
      in if connectionState s1 \<noteq> DISCONNECTED
         then scheduleReconnect (s1\<lparr>connectionState := RECONNECTING\<rparr>)
         else s1)"

text \<open>
  \<^verbatim>\<open>connect\<close>. The state is set to \<open>CONNECTING\<close> first. Then the URL is built; the
  text of the URL only feeds the constructor and is left out, but the call of
  \<^verbatim>\<open>storage.getItem\<close> stands outside the \<^verbatim>\<open>try\<close>: when it throws, \<^verbatim>\<open>connect\<close> ends
  there and the exception goes to the caller (the application through
  \<^verbatim>\<open>subscribe()\<close> or \<^verbatim>\<open>connect()\<close>, or the timer). No caller runs anything after
  \<^verbatim>\<open>connect\<close> (in \<^verbatim>\<open>subscribe()\<close> only \<^verbatim>\<open>return this\<close> follows), so the state
  \<^verbatim>\<open>connect\<close> leaves is the state the call leaves. Inside the \<^verbatim>\<open>try\<close>, a constructor
  that throws leaves \<open>ws\<close> as it was and runs \<^verbatim>\<open>handleDisconnect\<close>; otherwise
  \<^verbatim>\<open>setupWebSocket\<close> installs the four callbacks on the new socket, recorded in
  \<open>sockets\<close>.
\<close>

definition connect :: "environment \<Rightarrow> RealtimeClient \<Rightarrow> RealtimeClient" where
  "connect env s =
     (if connectionState s = CONNECTED \<or> connectionState s = CONNECTING then s
      else
        let s1 = s\<lparr>connectionState := CONNECTING\<rparr>;
            i = getItem_calls s1;
            s2 = s1\<lparr>getItem_calls := i + 1\<rparr>
        in if getItem_throws env i then s2\<lparr>uncaught := uncaught s2 + 1\<rparr>
           else
             let k = ws_attempts s2;
                 s3 = s2\<lparr>ws_attempts := k + 1\<rparr>
             in if ctor_throws env k then handleDisconnect s3
                else s3\<lparr>ws := Some k, sockets := sockets s3 @ [k]\<rparr>)"

text \<open>\<^verbatim>\<open>disconnect\<close>; \<open>ws_closed\<close> records the call of \<^verbatim>\<open>ws.close()\<close>.\<close>

definition disconnect :: "RealtimeClient \<Rightarrow> RealtimeClient" where
  "disconnect s =
     (let s1 = stopReconnect (stopHeartbeat s);
          s2 = (case ws s1 of
                  None \<Rightarrow> s1
                | Some k \<Rightarrow> s1\<lparr>ws_closed := ws_closed s1 @ [k], ws := None\<rparr>)
      in s2\<lparr>connectionState := DISCONNECTED, channels := [], messageQueue := []\<rparr>)"

text \<open>The callbacks installed by \<^verbatim>\<open>setupWebSocket\<close>.\<close>

definition ws_onopen :: "environment \<Rightarrow> RealtimeClient \<Rightarrow> RealtimeClient" where
  "ws_onopen env s =
     resubscribeChannels env
       (flushMessageQueue env
         (startHeartbeat (s\<lparr>connectionState := CONNECTED, reconnectAttempts := 0\<rparr>)))"

definition ws_onclose :: "RealtimeClient \<Rightarrow> RealtimeClient" where
  "ws_onclose s = handleDisconnect s"

definition ws_onerror :: "RealtimeClient \<Rightarrow> RealtimeClient" where
  "ws_onerror s = s"

text \<open>The two timer callbacks.\<close>

definition reconnect_timer_fires :: "environment \<Rightarrow> RealtimeClient \<Rightarrow> RealtimeClient" where
  "reconnect_timer_fires env s =
     connect env (s\<lparr>reconnectTimeout := None, reconnectAttempts := reconnectAttempts s + 1\<rparr>)"

definition heartbeat_timer_fires :: "environment \<Rightarrow> RealtimeClient \<Rightarrow> RealtimeClient" where
  "heartbeat_timer_fires env s = sendMessage env HeartbeatFrame s"

text \<open>
  \<^verbatim>\<open>channel(name)\<close>: the registered reference, or a new object stored and
  registered at the end of the \<^verbatim>\<open>Map\<close>.
\<close>

definition channel :: "string \<Rightarrow> RealtimeClient \<Rightarrow> nat \<times> RealtimeClient" where
  "channel nm s =
     (case map_of (channels s) nm of
        Some r \<Rightarrow> (r, s)
      | None \<Rightarrow>
          let r = next_ref s
          in (r, s\<lparr>heap := (heap s)(r \<mapsto> \<lparr>name = nm, handlers = Map.empty, subscribed = False\<rparr>),
                   next_ref := r + 1,
                   channels := channels s @ [(nm, r)]\<rparr>))"

definition handleChannelSubscribe :: "environment \<Rightarrow> RealtimeClient \<Rightarrow> RealtimeClient" where
  "handleChannelSubscribe env s =
     (if connectionState s = DISCONNECTED then connect env s else s)"

text \<open>\<^verbatim>\<open>handleChannelUnsubscribe\<close>: delete by name, disconnect when nothing is left.\<close>

definition is_subscribed_ref :: "RealtimeClient \<Rightarrow> nat \<Rightarrow> bool" where
  "is_subscribed_ref s r = (case heap s r of None \<Rightarrow> False | Some c \<Rightarrow> subscribed c)"

definition handleChannelUnsubscribe :: "string \<Rightarrow> RealtimeClient \<Rightarrow> RealtimeClient" where
  "handleChannelUnsubscribe nm s =
     (let s1 = s\<lparr>channels := filter (\<lambda>entry. fst entry \<noteq> nm) (channels s)\<rparr>;
          hasSubscribed = list_ex (\<lambda>entry. is_subscribed_ref s1 (snd entry)) (channels s1)
      in if \<not> hasSubscribed \<and> length (channels s1) = 0 then disconnect s1 else s1)"

section \<open>RealtimeChannel\<close>

text \<open>
  The methods act on the Channel object behind a reference \<open>r\<close>. A reference
  that was never handed out has no object; the methods then leave the state as
  it is (no such call exists in the program).
\<close>

definition isSubscribed :: "RealtimeClient \<Rightarrow> nat \<Rightarrow> bool" where
  "isSubscribed s r = is_subscribed_ref s r"

definition set_add :: "handler \<Rightarrow> handler list \<Rightarrow> handler list" where
  "set_add h hs = (if h \<in> set hs then hs else hs @ [h])"

definition channel_on :: "nat \<Rightarrow> RealtimeEventType \<Rightarrow> handler \<Rightarrow> RealtimeClient \<Rightarrow> RealtimeClient" where
  "channel_on r event callback s =
     (case heap s r of
        None \<Rightarrow> s
      | Some c \<Rightarrow>
          let hs = (case handlers c event of None \<Rightarrow> [] | Some hs \<Rightarrow> hs)
          in s\<lparr>heap := (heap s)(r \<mapsto> c\<lparr>handlers := (handlers c)(event \<mapsto> set_add callback hs)\<rparr>)\<rparr>)"

definition channel_off ::
    "nat \<Rightarrow> RealtimeEventType \<Rightarrow> handler option \<Rightarrow> RealtimeClient \<Rightarrow> RealtimeClient" where
  "channel_off r event callback s =
     (case heap s r of
        None \<Rightarrow> s
      | Some c \<Rightarrow>
          (case callback of
             None \<Rightarrow> s\<lparr>heap := (heap s)(r \<mapsto> c\<lparr>handlers := (handlers c)(event := None)\<rparr>)\<rparr>
           | Some h \<Rightarrow>
               (case handlers c event of
                  None \<Rightarrow> s
                | Some hs \<Rightarrow>
                    s\<lparr>heap := (heap s)(r \<mapsto> c\<lparr>handlers := (handlers c)(event \<mapsto> removeAll h hs)\<rparr>)\<rparr>)))"

definition subscribe :: "environment \<Rightarrow> nat \<Rightarrow> RealtimeClient \<Rightarrow> RealtimeClient" where
  "subscribe env r s =
     (case heap s r of
        None \<Rightarrow> s
      | Some c \<Rightarrow>
          if subscribed c then s
          else
            let s1 = sendMessage env (SubscribeFrame (name c)) s;
                s2 = s1\<lparr>heap := (heap s1)(r \<mapsto> c\<lparr>subscribed := True\<rparr>)\<rparr>
            in handleChannelSubscribe env s2)"

definition unsubscribe :: "environment \<Rightarrow> nat \<Rightarrow> RealtimeClient \<Rightarrow> RealtimeClient" where
  "unsubscribe env r s =
     (case heap s r of
        None \<Rightarrow> s
      | Some c \<Rightarrow>
          if \<not> subscribed c then s
          else
            let s1 = sendMessage env (UnsubscribeFrame (name c)) s;
                s2 = s1\<lparr>heap := (heap s1)(r \<mapsto> c\<lparr>subscribed := False, handlers := Map.empty\<rparr>)\<rparr>
            in handleChannelUnsubscribe (name c) s2)"

text \<open>
  \<^verbatim>\<open>dispatch\<close>. Calling a callback is recorded in \<open>invoked\<close>; the callback
  returns or throws. Each call sits in its own \<^verbatim>\<open>try { } catch { }\<close>, so the
  loop goes on after either outcome. The result carries what \<^verbatim>\<open>dispatch\<close> itself
  would throw to its caller.
\<close>

datatype outcome = Returned | Threw

definition call_handler ::
    "environment \<Rightarrow> RealtimePayload \<Rightarrow> handler \<Rightarrow> RealtimeClient \<Rightarrow> outcome \<times> RealtimeClient" where
  "call_handler env payload h s =
     (if handler_throws env h payload then Threw else Returned,
      s\<lparr>invoked := invoked s @ [(h, payload)]\<rparr>)"

fun invoke_each ::
    "environment \<Rightarrow> RealtimePayload \<Rightarrow> handler list \<Rightarrow> RealtimeClient \<Rightarrow> outcome \<times> RealtimeClient" where
  "invoke_each env payload [] s = (Returned, s)"
| "invoke_each env payload (h # hs) s =
     (case call_handler env payload h s of
        (Threw, s') \<Rightarrow> invoke_each env payload hs s'
      | (Returned, s') \<Rightarrow> invoke_each env payload hs s')"

definition invoke_set ::
    "environment \<Rightarrow> RealtimePayload \<Rightarrow> handler list option \<Rightarrow> RealtimeClient \<Rightarrow> outcome \<times> RealtimeClient" where
  "invoke_set env payload found s =
     (case found of None \<Rightarrow> (Returned, s) | Some hs \<Rightarrow> invoke_each env payload hs s)"

definition dispatch ::
    "environment \<Rightarrow> nat \<Rightarrow> RealtimePayload \<Rightarrow> RealtimeClient \<Rightarrow> outcome \<times> RealtimeClient" where
  "dispatch env r payload s =
     (case heap s r of
        None \<Rightarrow> (Returned, s)
      | Some c \<Rightarrow>
          (case invoke_set env payload (handlers c (ptype payload)) s of
             (Threw, s1) \<Rightarrow> (Threw, s1)
           | (Returned, s1) \<Rightarrow> invoke_set env payload (handlers c WILDCARD) s1))"

text \<open>
  \<^verbatim>\<open>handleMessage\<close>. The text frame is given as what \<^verbatim>\<open>JSON.parse\<close> makes of
  it: nothing usable (the parse, or reading a field, throws), or an object with
  its \<^verbatim>\<open>type\<close>, \<^verbatim>\<open>channel\<close> and \<^verbatim>\<open>payload\<close>. An empty channel name is falsy.
  The whole body is inside \<^verbatim>\<open>try { } catch { }\<close>.
\<close>

datatype inbound = Unparseable | Envelope string "string option" "RealtimePayload option"

definition handleMessage :: "environment \<Rightarrow> inbound \<Rightarrow> RealtimeClient \<Rightarrow> RealtimeClient" where
  "handleMessage env data s =
     (case data of
        Unparseable \<Rightarrow> s
      | Envelope mtype mchannel mpayload \<Rightarrow>
          (case mchannel of
             None \<Rightarrow> s
           | Some nm \<Rightarrow>
               if mtype = ''event'' \<and> nm \<noteq> [] then
                 (case (map_of (channels s) nm, mpayload) of
                    (Some r, Some payload) \<Rightarrow> snd (dispatch env r payload s)
                  | _ \<Rightarrow> s)
               else s))"

definition ws_onmessage :: "environment \<Rightarrow> inbound \<Rightarrow> RealtimeClient \<Rightarrow> RealtimeClient" where
  "ws_onmessage env data s = handleMessage env data s"

section \<open>Runs of the client\<close>

text \<open>
  Everything that can happen to a client: the application calls a public method
  (of the client, or of a Channel it holds a reference to), a socket that
  \<^verbatim>\<open>setupWebSocket\<close> prepared delivers one of its four events, or a timer that is
  set fires. An event that cannot happen in the state leaves it unchanged.
\<close>

datatype event =
    CallChannel string
  | CallOn nat RealtimeEventType handler
  | CallOff nat RealtimeEventType "handler option"
  | CallSubscribe nat
  | CallUnsubscribe nat
  | CallConnect
  | CallDisconnect
  | WsOpen nat
  | WsClose nat
  | WsError nat
  | WsMessage nat inbound
  | ReconnectTimer
  | HeartbeatTimer

fun step :: "environment \<Rightarrow> event \<Rightarrow> RealtimeClient \<Rightarrow> RealtimeClient" where
  "step env (CallChannel nm) s = snd (channel nm s)"
| "step env (CallOn r ev h) s = channel_on r ev h s"
| "step env (CallOff r ev h) s = channel_off r ev h s"
| "step env (CallSubscribe r) s = subscribe env r s"
| "step env (CallUnsubscribe r) s = unsubscribe env r s"
| "step env CallConnect s = connect env s"
| "step env CallDisconnect s = disconnect s"
| "step env (WsOpen k) s = (if k \<in> set (sockets s) then ws_onopen env s else s)"
| "step env (WsClose k) s = (if k \<in> set (sockets s) then ws_onclose s else s)"
| "step env (WsError k) s = (if k \<in> set (sockets s) then ws_onerror s else s)"
| "step env (WsMessage k data) s = (if k \<in> set (sockets s) then ws_onmessage env data s else s)"
| "step env ReconnectTimer s =
     (if reconnectTimeout s \<noteq> None then reconnect_timer_fires env s else s)"
| "step env HeartbeatTimer s =
     (if heartbeatInterval s \<noteq> None then heartbeat_timer_fires env s else s)"

definition run :: "environment \<Rightarrow> event list \<Rightarrow> RealtimeClient \<Rightarrow> RealtimeClient" where
  "run env evs s = fold (step env) evs s"

text \<open>Surroundings in which nothing throws.\<close>

definition calm :: environment where
  "calm = \<lparr> getItem_throws = (\<lambda>i. False), ctor_throws = (\<lambda>k. False),
            send_throws = (\<lambda>i. False),
            handler_throws = (\<lambda>h p. False) \<rparr>"

section \<open>Notions used in the statements\<close>

text \<open>The callbacks a Channel object holds for an event type (its private map).\<close>

definition handlers_of :: "RealtimeClient \<Rightarrow> nat \<Rightarrow> RealtimeEventType \<Rightarrow> handler list option" where
  "handlers_of s r ev = (case heap s r of None \<Rightarrow> None | Some c \<Rightarrow> handlers c ev)"

text \<open>
  The sockets the client has made and never called \<^verbatim>\<open>close()\<close> on.
\<close>

definition unclosed_sockets :: "RealtimeClient \<Rightarrow> nat list" where
  "unclosed_sockets s = filter (\<lambda>k. k \<notin> set (ws_closed s)) (sockets s)"

text \<open>
  Two facts that hold of every state a run reaches. The first relates the
  connection state to the socket handle; the second says that the store has no
  object at a reference not yet handed out, and that every registry entry
  points to an object that carries the entry's key as its name.
\<close>

definition handle_inv :: "RealtimeClient \<Rightarrow> bool" where
  "handle_inv s =
     (connectionState s = CONNECTED \<or> connectionState s = CONNECTING \<or> ws s = None)"


text \<open>
  An event spares the registry entry of the Channel object \<open>r\<close> named \<open>nm\<close>
  when it is not \<^verbatim>\<open>disconnect()\<close>, not \<^verbatim>\<open>subscribe()\<close> on \<open>r\<close>, and not
  \<^verbatim>\<open>unsubscribe()\<close> on a different object that bears the same name (an object
  the registry has dropped earlier). A run spares the entry when each of its
  events does, in the state it meets.
\<close>

fun spares :: "string \<Rightarrow> nat \<Rightarrow> RealtimeClient \<Rightarrow> event \<Rightarrow> bool" where
  "spares nm r s CallDisconnect = False"
| "spares nm r s (CallSubscribe r') = (r' \<noteq> r)"
| "spares nm r s (CallUnsubscribe r') =
     (r' = r \<or> (case heap s r' of None \<Rightarrow> True | Some c \<Rightarrow> name c \<noteq> nm))"
| "spares nm r s e = True"

fun all_spare :: "environment \<Rightarrow> string \<Rightarrow> nat \<Rightarrow> event list \<Rightarrow> RealtimeClient \<Rightarrow> bool" where
  "all_spare env nm r [] s = True"
| "all_spare env nm r (e # es) s = (spares nm r s e \<and> all_spare env nm r es (step env e s))"

text \<open>
  The client waits for a reconnect: the state is \<open>RECONNECTING\<close> after \<open>a\<close>
  attempts, and the pending timer carries the delay of attempt \<open>a\<close>.
\<close>

definition waiting :: "nat \<Rightarrow> RealtimeClient \<Rightarrow> bool" where
  "waiting a s = (connectionState s = RECONNECTING \<and> reconnectAttempts s = a \<and>
     reconnectTimeout s = Some (reconnect_delay a))"

section \<open>Evaluating runs\<close>

text \<open>The defining equations needed to evaluate a run on given events.\<close>

lemmas eval_defs = run_def channel_def new_client_def subscribe_def unsubscribe_def sendMessage_def
  handleChannelSubscribe_def handleChannelUnsubscribe_def connect_def disconnect_def calm_def
  ws_onopen_def ws_onclose_def handleDisconnect_def scheduleReconnect_def startHeartbeat_def
  stopHeartbeat_def stopReconnect_def flushMessageQueue_def resubscribeChannels_def
  resubscribe_one_def isSubscribed_def is_subscribed_ref_def handlers_of_def channel_on_def
  channel_off_def set_add_def HEARTBEAT_INTERVAL_MS_def Let_def

section \<open>The backoff delay\<close>

lemma reconnect_delay_unfold: "reconnect_delay n = min (1000 * 2 ^ n) 30000"
  by (simp add: reconnect_delay_def RECONNECT_DELAY_MS_def RECONNECT_BACKOFF_MULTIPLIER_def
      MAX_RECONNECT_DELAY_MS_def)

lemma reconnect_delay_mono: "reconnect_delay n \<le> reconnect_delay (n + k)"
  unfolding reconnect_delay_unfold
  by (rule min.mono) (simp_all add: power_add)

lemma reconnect_delay_cap: "reconnect_delay n \<le> 30000"
  by (simp add: reconnect_delay_unfold)

lemma reconnect_delay_first: "map reconnect_delay [0, 1, 2, 3, 4, 5, 6] = [1000, 2000, 4000, 8000, 16000, 30000, 30000]"
  by (simp add: reconnect_delay_unfold)

lemma reconnect_delay_late: "reconnect_delay (5 + k) = 30000"
proof -
  have "(1::nat) \<le> 2 ^ k" by simp
  then have "(30000::nat) \<le> 1000 * (32 * 2 ^ k)" by linarith
  then show ?thesis by (simp add: reconnect_delay_unfold power_add)
qed

section \<open>What the send path leaves alone\<close>

lemma sendMessage_keeps [simp]:
  "ws (sendMessage env m s) = ws s"
  "connectionState (sendMessage env m s) = connectionState s"
  "channels (sendMessage env m s) = channels s"
  "heap (sendMessage env m s) = heap s"
  "reconnectAttempts (sendMessage env m s) = reconnectAttempts s"
  "reconnectTimeout (sendMessage env m s) = reconnectTimeout s"
  "heartbeatInterval (sendMessage env m s) = heartbeatInterval s"
  "ws_attempts (sendMessage env m s) = ws_attempts s"
  "sockets (sendMessage env m s) = sockets s"
  "ws_closed (sendMessage env m s) = ws_closed s"
  "next_ref (sendMessage env m s) = next_ref s"
  "invoked (sendMessage env m s) = invoked s"
  by (simp_all add: sendMessage_def split: option.splits)

lemma fold_sendMessage_keeps [simp]:
  "ws (fold (sendMessage env) ms s) = ws s"
  "connectionState (fold (sendMessage env) ms s) = connectionState s"
  "channels (fold (sendMessage env) ms s) = channels s"
  "heap (fold (sendMessage env) ms s) = heap s"
  "reconnectAttempts (fold (sendMessage env) ms s) = reconnectAttempts s"
  "reconnectTimeout (fold (sendMessage env) ms s) = reconnectTimeout s"
  "heartbeatInterval (fold (sendMessage env) ms s) = heartbeatInterval s"
  "ws_attempts (fold (sendMessage env) ms s) = ws_attempts s"
  "sockets (fold (sendMessage env) ms s) = sockets s"
  "ws_closed (fold (sendMessage env) ms s) = ws_closed s"
  "next_ref (fold (sendMessage env) ms s) = next_ref s"
  "invoked (fold (sendMessage env) ms s) = invoked s"
  by (induction ms arbitrary: s; simp)+

lemma flush_keeps [simp]:
  "ws (flushMessageQueue env s) = ws s"
  "connectionState (flushMessageQueue env s) = connectionState s"
  "channels (flushMessageQueue env s) = channels s"
  "heap (flushMessageQueue env s) = heap s"
  "reconnectAttempts (flushMessageQueue env s) = reconnectAttempts s"
  "reconnectTimeout (flushMessageQueue env s) = reconnectTimeout s"
  "heartbeatInterval (flushMessageQueue env s) = heartbeatInterval s"
  "ws_attempts (flushMessageQueue env s) = ws_attempts s"
  "sockets (flushMessageQueue env s) = sockets s"
  "ws_closed (flushMessageQueue env s) = ws_closed s"
  "next_ref (flushMessageQueue env s) = next_ref s"
  "invoked (flushMessageQueue env s) = invoked s"
  by (simp_all add: flushMessageQueue_def)

lemma resubscribe_one_keeps [simp]:
  "ws (resubscribe_one env e s) = ws s"
  "connectionState (resubscribe_one env e s) = connectionState s"
  "channels (resubscribe_one env e s) = channels s"
  "heap (resubscribe_one env e s) = heap s"
  "reconnectAttempts (resubscribe_one env e s) = reconnectAttempts s"
  "reconnectTimeout (resubscribe_one env e s) = reconnectTimeout s"
  "heartbeatInterval (resubscribe_one env e s) = heartbeatInterval s"
  "ws_attempts (resubscribe_one env e s) = ws_attempts s"
  "sockets (resubscribe_one env e s) = sockets s"
  "ws_closed (resubscribe_one env e s) = ws_closed s"
  "next_ref (resubscribe_one env e s) = next_ref s"
  "invoked (resubscribe_one env e s) = invoked s"
  by (simp_all add: resubscribe_one_def split: option.splits)

lemma fold_resubscribe_keeps [simp]:
  "ws (fold (resubscribe_one env) es s) = ws s"
  "connectionState (fold (resubscribe_one env) es s) = connectionState s"
  "channels (fold (resubscribe_one env) es s) = channels s"
  "heap (fold (resubscribe_one env) es s) = heap s"
  "reconnectAttempts (fold (resubscribe_one env) es s) = reconnectAttempts s"
  "reconnectTimeout (fold (resubscribe_one env) es s) = reconnectTimeout s"
  "heartbeatInterval (fold (resubscribe_one env) es s) = heartbeatInterval s"
  "ws_attempts (fold (resubscribe_one env) es s) = ws_attempts s"
  "sockets (fold (resubscribe_one env) es s) = sockets s"
  "ws_closed (fold (resubscribe_one env) es s) = ws_closed s"
  "next_ref (fold (resubscribe_one env) es s) = next_ref s"
  "invoked (fold (resubscribe_one env) es s) = invoked s"
  by (induction es arbitrary: s; simp)+

lemma resubscribeChannels_keeps [simp]:
  "ws (resubscribeChannels env s) = ws s"
  "connectionState (resubscribeChannels env s) = connectionState s"
  "channels (resubscribeChannels env s) = channels s"
  "heap (resubscribeChannels env s) = heap s"
  "reconnectAttempts (resubscribeChannels env s) = reconnectAttempts s"
  "reconnectTimeout (resubscribeChannels env s) = reconnectTimeout s"
  "heartbeatInterval (resubscribeChannels env s) = heartbeatInterval s"
  "ws_attempts (resubscribeChannels env s) = ws_attempts s"
  "sockets (resubscribeChannels env s) = sockets s"
  "ws_closed (resubscribeChannels env s) = ws_closed s"
  "next_ref (resubscribeChannels env s) = next_ref s"
  "invoked (resubscribeChannels env s) = invoked s"
  by (simp_all add: resubscribeChannels_def)

section \<open>The send path\<close>

text \<open>
  Claim C6. A frame passed to \<^verbatim>\<open>sendMessage\<close> is transmitted at once when the state is
  \<open>CONNECTED\<close>, the socket handle exists and \<^verbatim>\<open>ws.send\<close> does not throw; it is
  appended to the outbound queue when \<^verbatim>\<open>ws.send\<close> throws, and also, without any
  attempt to transmit, when the state is not \<open>CONNECTED\<close> or the handle is absent.
  In every case exactly one of the two happens: the frame is never dropped.
\<close>

theorem sendMessage_transmits_or_enqueues:
  "(connectionState s = CONNECTED \<and> ws s = Some k \<and> \<not> send_throws env (send_calls s) \<longrightarrow>
      wire (sendMessage env m s) = wire s @ [(k, m)] \<and>
      messageQueue (sendMessage env m s) = messageQueue s) \<and>
   (connectionState s = CONNECTED \<and> ws s = Some k \<and> send_throws env (send_calls s) \<longrightarrow>
      wire (sendMessage env m s) = wire s \<and>
      messageQueue (sendMessage env m s) = messageQueue s @ [m]) \<and>
   (connectionState s \<noteq> CONNECTED \<or> ws s = None \<longrightarrow>
      wire (sendMessage env m s) = wire s \<and>
      messageQueue (sendMessage env m s) = messageQueue s @ [m]) \<and>
   ((\<exists>j. ws s = Some j \<and> wire (sendMessage env m s) = wire s @ [(j, m)]) \<and>
      messageQueue (sendMessage env m s) = messageQueue s
    \<or> wire (sendMessage env m s) = wire s \<and>
      messageQueue (sendMessage env m s) = messageQueue s @ [m])"
  by (auto simp add: sendMessage_def split: option.splits)

theorem sendMessage_transmits_or_enqueues_witness:
  "wire (sendMessage calm HeartbeatFrame (run calm [CallConnect, WsOpen 0] new_client))
     = [(0, HeartbeatFrame)] \<and>
   messageQueue (sendMessage calm HeartbeatFrame (run calm [CallConnect, WsOpen 0] new_client)) = [] \<and>
   wire (sendMessage (calm\<lparr>send_throws := \<lambda>i. True\<rparr>) HeartbeatFrame
      (run (calm\<lparr>send_throws := \<lambda>i. True\<rparr>) [CallConnect, WsOpen 0] new_client)) = [] \<and>
   messageQueue (sendMessage (calm\<lparr>send_throws := \<lambda>i. True\<rparr>) HeartbeatFrame
      (run (calm\<lparr>send_throws := \<lambda>i. True\<rparr>) [CallConnect, WsOpen 0] new_client))
     = [HeartbeatFrame] \<and>
   wire (sendMessage calm (SubscribeFrame ''a'') new_client) = [] \<and>
   messageQueue (sendMessage calm (SubscribeFrame ''a'') new_client) = [SubscribeFrame ''a'']"
  using sendMessage_transmits_or_enqueues
      [of "run calm [CallConnect, WsOpen 0] new_client" 0 calm HeartbeatFrame]
    sendMessage_transmits_or_enqueues
      [of "run (calm\<lparr>send_throws := \<lambda>i. True\<rparr>) [CallConnect, WsOpen 0] new_client" 0
          "calm\<lparr>send_throws := \<lambda>i. True\<rparr>" HeartbeatFrame]
    sendMessage_transmits_or_enqueues [of new_client 0 calm "SubscribeFrame ''a''"]
  by (simp add: run_def connect_def new_client_def calm_def ws_onopen_def startHeartbeat_def
      stopHeartbeat_def flushMessageQueue_def resubscribeChannels_def Let_def)

section \<open>Dispatch to callbacks\<close>

lemma invoke_each_result:
  "invoke_each env p hs s = (Returned, s\<lparr>invoked := invoked s @ map (\<lambda>h. (h, p)) hs\<rparr>)"
  by (induction hs arbitrary: s) (simp_all add: call_handler_def)

lemma invoke_set_result:
  "invoke_set env p found s =
     (Returned, s\<lparr>invoked := invoked s @ map (\<lambda>h. (h, p)) (case found of None \<Rightarrow> [] | Some hs \<Rightarrow> hs)\<rparr>)"
  by (cases found) (simp_all add: invoke_set_def invoke_each_result)

lemma dispatch_result:
  "heap s r = Some c \<Longrightarrow>
   dispatch env r p s =
     (Returned, s\<lparr>invoked := invoked s @ map (\<lambda>h. (h, p))
        ((case handlers c (ptype p) of None \<Rightarrow> [] | Some hs \<Rightarrow> hs) @
         (case handlers c WILDCARD of None \<Rightarrow> [] | Some hs \<Rightarrow> hs))\<rparr>)"
  by (simp add: dispatch_def invoke_set_result)

lemma dispatch_total:
  "dispatch env r p s =
     (Returned, s\<lparr>invoked := invoked s @ map (\<lambda>h. (h, p))
        ((case handlers_of s r (ptype p) of None \<Rightarrow> [] | Some hs \<Rightarrow> hs) @
         (case handlers_of s r WILDCARD of None \<Rightarrow> [] | Some hs \<Rightarrow> hs))\<rparr>)"
proof (cases "heap s r")
  case None
  then show ?thesis by (simp add: dispatch_def handlers_of_def)
next
  case (Some c)
  then show ?thesis by (simp add: dispatch_result handlers_of_def)
qed

lemma dispatch_keeps [simp]:
  "ws (snd (dispatch env r p s)) = ws s"
  "connectionState (snd (dispatch env r p s)) = connectionState s"
  "ws_attempts (snd (dispatch env r p s)) = ws_attempts s"
  "channels (snd (dispatch env r p s)) = channels s"
  "heap (snd (dispatch env r p s)) = heap s"
  "next_ref (snd (dispatch env r p s)) = next_ref s"
  "ws_closed (snd (dispatch env r p s)) = ws_closed s"
  by (simp_all add: dispatch_total)

lemma handleMessage_keeps [simp]:
  "ws (handleMessage env d s) = ws s"
  "connectionState (handleMessage env d s) = connectionState s"
  "ws_attempts (handleMessage env d s) = ws_attempts s"
  "channels (handleMessage env d s) = channels s"
  "heap (handleMessage env d s) = heap s"
  "next_ref (handleMessage env d s) = next_ref s"
  "ws_closed (handleMessage env d s) = ws_closed s"
  by (simp_all add: handleMessage_def split: inbound.splits option.splits)

text \<open>
  Claim C8. \<^verbatim>\<open>dispatch\<close> calls every callback registered for the payload's type and
  then every wildcard callback with that payload, whichever of them throw: the
  calls made are exactly these, in registration order, \<^verbatim>\<open>dispatch\<close> itself never
  throws, and an inbound message changes nothing of the client but the record of
  calls made. (A callback is taken to return or throw; it does not call back into
  the Channel.)
\<close>

theorem dispatch_isolates_handlers:
  "fst (dispatch env r p s) = Returned \<and>
   snd (dispatch env r p s) =
     s\<lparr>invoked := invoked s @ map (\<lambda>h. (h, p))
        ((case handlers_of s r (ptype p) of None \<Rightarrow> [] | Some hs \<Rightarrow> hs) @
         (case handlers_of s r WILDCARD of None \<Rightarrow> [] | Some hs \<Rightarrow> hs))\<rparr> \<and>
   (handlers_of s r (ptype p) = Some hs \<and> h \<in> set hs \<longrightarrow>
      (h, p) \<in> set (invoked (snd (dispatch env r p s)))) \<and>
   (handlers_of s r WILDCARD = Some ws' \<and> w \<in> set ws' \<longrightarrow>
      (w, p) \<in> set (invoked (snd (dispatch env r p s)))) \<and>
   handleMessage env d s = s\<lparr>invoked := invoked (handleMessage env d s)\<rparr>"
proof -
  have "handleMessage env d s = s\<lparr>invoked := invoked (handleMessage env d s)\<rparr>"
    by (simp add: handleMessage_def dispatch_total split: inbound.splits option.splits)
  then show ?thesis
    by (auto simp add: dispatch_total)
qed

theorem dispatch_isolates_handlers_witness:
  "handlers_of (run calm [CallChannel ''a'', CallOn 0 INSERT 1, CallOn 0 INSERT 2,
        CallOn 0 WILDCARD 3] new_client) 0 INSERT = Some [1, 2] \<and>
   handlers_of (run calm [CallChannel ''a'', CallOn 0 INSERT 1, CallOn 0 INSERT 2,
        CallOn 0 WILDCARD 3] new_client) 0 WILDCARD = Some [3] \<and>
   handler_throws (calm\<lparr>handler_throws := \<lambda>h p. h = 1\<rparr>) 1
     \<lparr>ptype = INSERT, table = ''users'', schema = ''public'', commit_timestamp = ''t'',
      new_row = Some [], old_row = None\<rparr> \<and>
   (2, \<lparr>ptype = INSERT, table = ''users'', schema = ''public'', commit_timestamp = ''t'',
      new_row = Some [], old_row = None\<rparr>)
     \<in> set (invoked (snd (dispatch (calm\<lparr>handler_throws := \<lambda>h p. h = 1\<rparr>) 0
        \<lparr>ptype = INSERT, table = ''users'', schema = ''public'', commit_timestamp = ''t'',
         new_row = Some [], old_row = None\<rparr>
        (run calm [CallChannel ''a'', CallOn 0 INSERT 1, CallOn 0 INSERT 2,
           CallOn 0 WILDCARD 3] new_client)))) \<and>
   (3, \<lparr>ptype = INSERT, table = ''users'', schema = ''public'', commit_timestamp = ''t'',
      new_row = Some [], old_row = None\<rparr>)
     \<in> set (invoked (snd (dispatch (calm\<lparr>handler_throws := \<lambda>h p. h = 1\<rparr>) 0
        \<lparr>ptype = INSERT, table = ''users'', schema = ''public'', commit_timestamp = ''t'',
         new_row = Some [], old_row = None\<rparr>
        (run calm [CallChannel ''a'', CallOn 0 INSERT 1, CallOn 0 INSERT 2,
           CallOn 0 WILDCARD 3] new_client))))"
  using dispatch_isolates_handlers [of "calm\<lparr>handler_throws := \<lambda>h p. h = 1\<rparr>" 0
      "\<lparr>ptype = INSERT, table = ''users'', schema = ''public'', commit_timestamp = ''t'',
        new_row = Some [], old_row = None\<rparr>"
      "run calm [CallChannel ''a'', CallOn 0 INSERT 1, CallOn 0 INSERT 2,
        CallOn 0 WILDCARD 3] new_client" "[1, 2]" 2 "[3]" 3 Unparseable]
  by (simp add: run_def channel_def new_client_def channel_on_def set_add_def handlers_of_def
      calm_def Let_def)

section \<open>Flushing the outbound queue\<close>













text \<open>
  A frame whose \<^verbatim>\<open>ws.send\<close> throws during the flush is put back into the emptied
  queue and is not among the frames this flush transmits; the others go out in order.
  Here the first send throws: y and z are transmitted by the flush, x stays queued
  (the last three frames on the wire are those of \<^verbatim>\<open>resubscribeChannels\<close>).
\<close>

lemma flush_requeues_failed_send:
  "wire (ws_onopen (calm\<lparr>send_throws := \<lambda>i. i = 0\<rparr>)
      (run calm [CallChannel ''x'', CallChannel ''y'', CallChannel ''z'',
        CallSubscribe 0, CallSubscribe 1, CallSubscribe 2] new_client))
     = [(0, SubscribeFrame ''y''), (0, SubscribeFrame ''z''),
        (0, SubscribeFrame ''x''), (0, SubscribeFrame ''y''), (0, SubscribeFrame ''z'')] \<and>
   messageQueue (ws_onopen (calm\<lparr>send_throws := \<lambda>i. i = 0\<rparr>)
      (run calm [CallChannel ''x'', CallChannel ''y'', CallChannel ''z'',
        CallSubscribe 0, CallSubscribe 1, CallSubscribe 2] new_client))
     = [SubscribeFrame ''x'']"
  by (simp add: eval_defs)

section \<open>The socket handle along a run\<close>

lemma run_snoc: "run env (evs @ [e]) s = step env e (run env evs s)"
  by (simp add: run_def)


lemma run_Nil: "run env [] s = s"
  by (simp add: run_def)

lemma handleDisconnect_ws [simp]: "ws (handleDisconnect s) = None"
  by (simp add: handleDisconnect_def stopHeartbeat_def scheduleReconnect_def Let_def)

lemma handleDisconnect_attempts [simp]: "ws_attempts (handleDisconnect s) = ws_attempts s"
  by (simp add: handleDisconnect_def stopHeartbeat_def scheduleReconnect_def Let_def)

lemma disconnect_ws [simp]: "ws (disconnect s) = None"
  by (simp add: disconnect_def stopHeartbeat_def stopReconnect_def Let_def split: option.splits)

lemma disconnect_attempts [simp]: "ws_attempts (disconnect s) = ws_attempts s"
  by (simp add: disconnect_def stopHeartbeat_def stopReconnect_def Let_def split: option.splits)

lemma connect_inv: "handle_inv s \<Longrightarrow> handle_inv (connect env s)"
  by (simp add: connect_def handle_inv_def Let_def)

lemma connect_creates:
  "ws_attempts (connect env s) \<noteq> ws_attempts s \<Longrightarrow>
   connectionState s \<noteq> CONNECTED \<and> connectionState s \<noteq> CONNECTING"
  by (auto simp add: connect_def Let_def split: if_splits)

lemma channel_keeps [simp]:
  "ws (snd (channel nm s)) = ws s"
  "connectionState (snd (channel nm s)) = connectionState s"
  "ws_attempts (snd (channel nm s)) = ws_attempts s"
  "ws_closed (snd (channel nm s)) = ws_closed s"
  by (simp_all add: channel_def Let_def split: option.splits)

lemma channel_on_keeps [simp]:
  "ws (channel_on r ev h s) = ws s"
  "connectionState (channel_on r ev h s) = connectionState s"
  "ws_attempts (channel_on r ev h s) = ws_attempts s"
  "channels (channel_on r ev h s) = channels s"
  "next_ref (channel_on r ev h s) = next_ref s"
  "ws_closed (channel_on r ev h s) = ws_closed s"
  by (simp_all add: channel_on_def Let_def split: option.splits)

lemma channel_off_keeps [simp]:
  "ws (channel_off r ev h s) = ws s"
  "connectionState (channel_off r ev h s) = connectionState s"
  "ws_attempts (channel_off r ev h s) = ws_attempts s"
  "channels (channel_off r ev h s) = channels s"
  "next_ref (channel_off r ev h s) = next_ref s"
  "ws_closed (channel_off r ev h s) = ws_closed s"
  by (simp_all add: channel_off_def split: option.splits)

lemma subscribe_inv: "handle_inv s \<Longrightarrow> handle_inv (subscribe env r s)"
  by (auto simp add: subscribe_def handleChannelSubscribe_def Let_def handle_inv_def
      intro!: connect_inv [unfolded handle_inv_def] split: option.splits)

lemma subscribe_creates:
  "ws_attempts (subscribe env r s) \<noteq> ws_attempts s \<Longrightarrow>
   connectionState s \<noteq> CONNECTED \<and> connectionState s \<noteq> CONNECTING"
  by (auto simp add: subscribe_def handleChannelSubscribe_def Let_def
      split: option.splits if_splits)

lemma handleChannelUnsubscribe_inv:
  "handle_inv s \<Longrightarrow> handle_inv (handleChannelUnsubscribe nm s)"
  by (simp add: handleChannelUnsubscribe_def Let_def handle_inv_def)

lemma handleChannelUnsubscribe_attempts [simp]:
  "ws_attempts (handleChannelUnsubscribe nm s) = ws_attempts s"
  by (simp add: handleChannelUnsubscribe_def Let_def)

lemma unsubscribe_inv: "handle_inv s \<Longrightarrow> handle_inv (unsubscribe env r s)"
  by (auto simp add: unsubscribe_def Let_def handle_inv_def
      intro!: handleChannelUnsubscribe_inv [unfolded handle_inv_def] split: option.splits)

lemma unsubscribe_attempts [simp]: "ws_attempts (unsubscribe env r s) = ws_attempts s"
  by (simp add: unsubscribe_def Let_def split: option.splits)

lemma ws_onopen_inv: "handle_inv (ws_onopen env s)"
  by (simp add: ws_onopen_def handle_inv_def startHeartbeat_def stopHeartbeat_def)

lemma ws_onopen_attempts [simp]: "ws_attempts (ws_onopen env s) = ws_attempts s"
  by (simp add: ws_onopen_def startHeartbeat_def stopHeartbeat_def)

lemma step_inv: "handle_inv s \<Longrightarrow> handle_inv (step env e s)"
proof (cases e)
  case (CallSubscribe r)
  assume "handle_inv s"
  then show ?thesis using CallSubscribe by (simp add: subscribe_inv)
next
  case (CallUnsubscribe r)
  assume "handle_inv s"
  then show ?thesis using CallUnsubscribe by (simp add: unsubscribe_inv)
next
  case CallConnect
  assume "handle_inv s"
  then show ?thesis using CallConnect by (simp add: connect_inv)
next
  case ReconnectTimer
  assume "handle_inv s"
  then have "handle_inv (s\<lparr>reconnectTimeout := None, reconnectAttempts := reconnectAttempts s + 1\<rparr>)"
    by (simp add: handle_inv_def)
  then show ?thesis using ReconnectTimer \<open>handle_inv s\<close>
    by (simp add: reconnect_timer_fires_def connect_inv)
qed (simp_all add: handle_inv_def ws_onopen_inv [unfolded handle_inv_def] ws_onclose_def
      ws_onerror_def ws_onmessage_def heartbeat_timer_fires_def)

lemma run_inv: "handle_inv (run env evs new_client)"
proof (induction evs rule: rev_induct)
  case Nil
  show ?case by (simp add: run_def new_client_def handle_inv_def)
next
  case (snoc e evs)
  then show ?case by (simp add: run_snoc step_inv)
qed

lemma step_creates:
  "ws_attempts (step env e s) \<noteq> ws_attempts s \<Longrightarrow>
   connectionState s \<noteq> CONNECTED \<and> connectionState s \<noteq> CONNECTING"
proof (cases e)
  case (CallSubscribe r)
  assume "ws_attempts (step env e s) \<noteq> ws_attempts s"
  then show ?thesis using CallSubscribe subscribe_creates by simp
next
  case CallConnect
  assume "ws_attempts (step env e s) \<noteq> ws_attempts s"
  then show ?thesis using CallConnect connect_creates by simp
next
  case ReconnectTimer
  assume "ws_attempts (step env e s) \<noteq> ws_attempts s"
  then show ?thesis using ReconnectTimer
      connect_creates [of env "s\<lparr>reconnectTimeout := None, reconnectAttempts := reconnectAttempts s + 1\<rparr>"]
    by (simp add: reconnect_timer_fires_def split: if_splits)
qed (simp_all add: ws_onclose_def ws_onerror_def ws_onmessage_def heartbeat_timer_fires_def
      split: if_splits)

text \<open>
  A new socket is only created when the client holds no handle: along every run from
  a new client (calls of the public methods on any Channel reference, events of any
  socket the client has set up, timers firing, a credential store, constructors and
  sends that throw), a step that calls the \<^verbatim>\<open>WebSocket\<close> constructor starts in a
  state whose handle is \<open>None\<close>.
\<close>

theorem new_socket_only_without_handle:
  "ws_attempts (step env e (run env evs new_client)) \<noteq> ws_attempts (run env evs new_client) \<longrightarrow>
   ws (run env evs new_client) = None"
  using step_creates [of env e "run env evs new_client"] run_inv [of env evs]
  by (auto simp add: handle_inv_def)

theorem new_socket_only_without_handle_witness:
  "ws_attempts (step calm (CallSubscribe 0) (run calm [CallChannel ''a''] new_client))
      \<noteq> ws_attempts (run calm [CallChannel ''a''] new_client) \<and>
   ws (run calm [CallChannel ''a''] new_client) = None"
  using new_socket_only_without_handle [of calm "CallSubscribe 0" "[CallChannel ''a'']"]
  by (simp add: run_def channel_def new_client_def subscribe_def sendMessage_def
      handleChannelSubscribe_def connect_def calm_def Let_def)

text \<open>
  Claim C3 at a late close event. That the constructor only runs without a handle does
  not keep the sockets down to one: \<^verbatim>\<open>handleDisconnect\<close> drops the handle without
  calling \<^verbatim>\<open>close()\<close>, whichever socket delivered the close event. Subscribe to a,
  unsubscribe from it (the teardown calls \<^verbatim>\<open>close()\<close> on socket 0), subscribe to b
  (socket 1 is created); then the close event of socket 0 arrives and the reconnect
  timer fires. The handle to socket 1 is dropped and socket 2 is created: sockets 1
  and 2 both exist, neither was closed by the client and neither has delivered a
  close event. The same happens when socket 1 has opened before the late close event.
\<close>

theorem late_close_leaves_two_sockets:
  "sockets (run calm [CallChannel ''a'', CallSubscribe 0, CallUnsubscribe 0, CallChannel ''b'',
      CallSubscribe 1, WsClose 0, ReconnectTimer] new_client) = [0, 1, 2] \<and>
   ws_closed (run calm [CallChannel ''a'', CallSubscribe 0, CallUnsubscribe 0, CallChannel ''b'',
      CallSubscribe 1, WsClose 0, ReconnectTimer] new_client) = [0] \<and>
   unclosed_sockets (run calm [CallChannel ''a'', CallSubscribe 0, CallUnsubscribe 0,
      CallChannel ''b'', CallSubscribe 1, WsClose 0, ReconnectTimer] new_client) = [1, 2] \<and>
   ws (run calm [CallChannel ''a'', CallSubscribe 0, CallUnsubscribe 0, CallChannel ''b'',
      CallSubscribe 1, WsClose 0, ReconnectTimer] new_client) = Some 2 \<and>
   unclosed_sockets (run calm [CallChannel ''a'', CallSubscribe 0, CallUnsubscribe 0,
      CallChannel ''b'', CallSubscribe 1, WsOpen 1, WsClose 0, ReconnectTimer] new_client) = [1, 2] \<and>
   ws (run calm [CallChannel ''a'', CallSubscribe 0, CallUnsubscribe 0, CallChannel ''b'',
      CallSubscribe 1, WsOpen 1, WsClose 0, ReconnectTimer] new_client) = Some 2"
  by (simp add: eval_defs unclosed_sockets_def reconnect_timer_fires_def reconnect_delay_unfold)

section \<open>Reconnect scheduling\<close>

lemma handleDisconnect_attempts_kept [simp]: "reconnectAttempts (handleDisconnect s) = reconnectAttempts s"
  by (simp add: handleDisconnect_def stopHeartbeat_def scheduleReconnect_def Let_def)

lemma connect_attempts_kept [simp]: "reconnectAttempts (connect env s) = reconnectAttempts s"
  by (simp add: connect_def Let_def)

lemma timer_increments: "reconnectAttempts (reconnect_timer_fires env s) = reconnectAttempts s + 1"
  by (simp add: reconnect_timer_fires_def)

lemma onopen_resets: "reconnectAttempts (ws_onopen env s) = 0"
  by (simp add: ws_onopen_def startHeartbeat_def stopHeartbeat_def)

lemma schedule_delay:
  "reconnectTimeout s = None \<Longrightarrow>
   reconnectTimeout (scheduleReconnect s) = Some (reconnect_delay (reconnectAttempts s))"
  by (simp add: scheduleReconnect_def)

lemma loss_waits:
  "connectionState s \<noteq> DISCONNECTED \<Longrightarrow> reconnectTimeout s = None \<Longrightarrow>
   waiting (reconnectAttempts s) (ws_onclose s)"
  by (simp add: waiting_def ws_onclose_def handleDisconnect_def stopHeartbeat_def
      scheduleReconnect_def Let_def)

lemma retry_waits:
  "waiting a s \<Longrightarrow> waiting (Suc a) (ws_onclose (reconnect_timer_fires env s))"
  by (simp add: waiting_def ws_onclose_def reconnect_timer_fires_def connect_def
      handleDisconnect_def stopHeartbeat_def scheduleReconnect_def Let_def)

lemma retries_wait:
  "waiting a s \<Longrightarrow> waiting (a + n) (((\<lambda>s. ws_onclose (reconnect_timer_fires env s)) ^^ n) s)"
  by (induction n) (simp_all add: retry_waits)

text \<open>
  Claim C4. The reconnect delay for attempt count \<open>n\<close> is \<open>min (1000 * 2 ^ n) 30000\<close>
  milliseconds: 1000, 2000, 4000, 8000, 16000, 30000, 30000 and 30000 from then on,
  never decreasing and never above 30000. The attempt counter starts at 0, grows by
  one when the reconnect timer fires and is reset to 0 by the open callback.
  \<^verbatim>\<open>scheduleReconnect\<close> with no timer pending sets a timer with the delay of the
  current counter; so after a connection with counter 0 is lost and \<open>n\<close> further
  attempts fail in a row, the pending timer carries \<open>min (1000 * 2 ^ n) 30000\<close>.
\<close>

theorem reconnect_backoff_schedule:
  "reconnect_delay n = min (1000 * 2 ^ n) 30000 \<and>
   map reconnect_delay [0, 1, 2, 3, 4, 5, 6] = [1000, 2000, 4000, 8000, 16000, 30000, 30000] \<and>
   reconnect_delay (5 + k) = 30000 \<and>
   reconnect_delay n \<le> reconnect_delay (n + k) \<and>
   reconnect_delay n \<le> 30000 \<and>
   reconnectAttempts new_client = 0 \<and>
   reconnectAttempts (reconnect_timer_fires env s) = reconnectAttempts s + 1 \<and>
   reconnectAttempts (ws_onopen env s) = 0 \<and>
   (reconnectTimeout s = None \<longrightarrow>
      reconnectTimeout (scheduleReconnect s) = Some (reconnect_delay (reconnectAttempts s))) \<and>
   (connectionState s \<noteq> DISCONNECTED \<and> reconnectTimeout s = None \<and> reconnectAttempts s = 0 \<longrightarrow>
      reconnectTimeout (((\<lambda>t. ws_onclose (reconnect_timer_fires env t)) ^^ n) (ws_onclose s))
        = Some (min (1000 * 2 ^ n) 30000))"
proof -
  have "reconnectTimeout (((\<lambda>t. ws_onclose (reconnect_timer_fires env t)) ^^ n) (ws_onclose s))
        = Some (min (1000 * 2 ^ n) 30000)"
    if "connectionState s \<noteq> DISCONNECTED" "reconnectTimeout s = None" "reconnectAttempts s = 0"
  proof -
    from that have "waiting 0 (ws_onclose s)" using loss_waits [of s] by simp
    from retries_wait [OF this, of n env] show ?thesis
      by (simp add: waiting_def reconnect_delay_unfold)
  qed
  then show ?thesis
    using reconnect_delay_unfold [of n] reconnect_delay_first reconnect_delay_late [of k]
      reconnect_delay_mono [of n k] reconnect_delay_cap [of n] timer_increments [of env s]
      onopen_resets [of env s] schedule_delay [of s]
    by (simp add: new_client_def)
qed

theorem reconnect_backoff_schedule_witness:
  "connectionState (run calm [CallConnect, WsOpen 0] new_client) \<noteq> DISCONNECTED \<and>
   reconnectTimeout (run calm [CallConnect, WsOpen 0] new_client) = None \<and>
   reconnectAttempts (run calm [CallConnect, WsOpen 0] new_client) = 0 \<and>
   reconnectTimeout (((\<lambda>t. ws_onclose (reconnect_timer_fires calm t)) ^^ 3)
      (ws_onclose (run calm [CallConnect, WsOpen 0] new_client))) = Some 8000 \<and>
   reconnectTimeout (scheduleReconnect (run calm [CallConnect, WsOpen 0] new_client)) = Some 1000"
  using reconnect_backoff_schedule [of 3 0 calm "run calm [CallConnect, WsOpen 0] new_client"]
  by (simp add: run_def connect_def new_client_def calm_def ws_onopen_def startHeartbeat_def
      stopHeartbeat_def flushMessageQueue_def resubscribeChannels_def Let_def)

section \<open>The store of Channel objects along a run\<close>

lemma handleDisconnect_store [simp]:
  "heap (handleDisconnect s) = heap s"
  "channels (handleDisconnect s) = channels s"
  "next_ref (handleDisconnect s) = next_ref s"
  "ws_closed (handleDisconnect s) = ws_closed s"
  by (simp_all add: handleDisconnect_def stopHeartbeat_def scheduleReconnect_def Let_def)

lemma connect_store [simp]:
  "heap (connect env s) = heap s"
  "channels (connect env s) = channels s"
  "next_ref (connect env s) = next_ref s"
  "ws_closed (connect env s) = ws_closed s"
  by (simp_all add: connect_def Let_def)

lemma disconnect_store [simp]:
  "heap (disconnect s) = heap s"
  "channels (disconnect s) = []"
  "next_ref (disconnect s) = next_ref s"
  by (simp_all add: disconnect_def stopHeartbeat_def stopReconnect_def Let_def split: option.splits)

lemma ws_onopen_store [simp]:
  "heap (ws_onopen env s) = heap s"
  "channels (ws_onopen env s) = channels s"
  "next_ref (ws_onopen env s) = next_ref s"
  "ws_closed (ws_onopen env s) = ws_closed s"
  by (simp_all add: ws_onopen_def startHeartbeat_def stopHeartbeat_def)












section \<open>Unsubscribing\<close>










lemma stale_namesake_unsubscribe_tears_down:
  "channels (run calm [CallChannel ''a'', CallSubscribe 0, CallUnsubscribe 0,
      CallChannel ''a'', CallSubscribe 0, CallUnsubscribe 0] new_client) = [] \<and>
   connectionState (run calm [CallChannel ''a'', CallSubscribe 0, CallUnsubscribe 0,
      CallChannel ''a'', CallSubscribe 0, CallUnsubscribe 0] new_client) = DISCONNECTED \<and>
   ws_closed (run calm [CallChannel ''a'', CallSubscribe 0, CallUnsubscribe 0,
      CallChannel ''a'', CallSubscribe 0, CallUnsubscribe 0] new_client) = [0, 1] \<and>
   \<not> all_spare calm ''a'' 1 [CallSubscribe 0, CallUnsubscribe 0]
      (run calm [CallChannel ''a'', CallSubscribe 0, CallUnsubscribe 0, CallChannel ''a''] new_client)"
  by (simp add: eval_defs)

section \<open>Disconnecting\<close>

text \<open>
  Claim C2, as amended. After \<^verbatim>\<open>disconnect()\<close> the state is \<open>DISCONNECTED\<close>, the
  registry and the outbound queue are empty, the socket handle is released and both
  timers are stopped. The Channel objects handed out before are not touched: each
  keeps its subscribed flag and its callbacks.
\<close>

theorem disconnect_resets_manager_only:
  "connectionState (disconnect s) = DISCONNECTED \<and> channels (disconnect s) = [] \<and>
   messageQueue (disconnect s) = [] \<and> ws (disconnect s) = None \<and>
   heartbeatInterval (disconnect s) = None \<and> reconnectTimeout (disconnect s) = None \<and>
   heap (disconnect s) = heap s \<and>
   isSubscribed (disconnect s) r = isSubscribed s r \<and>
   handlers_of (disconnect s) r ev = handlers_of s r ev"
  by (simp add: disconnect_def stopHeartbeat_def stopReconnect_def Let_def isSubscribed_def
      is_subscribed_ref_def handlers_of_def split: option.splits)

text \<open>
  Claim C2 as stated fails: a Channel with a callback for \<open>INSERT\<close> that was
  subscribed before \<^verbatim>\<open>disconnect()\<close> still reports \<^verbatim>\<open>isSubscribed()\<close> and still holds
  the callback afterwards.
\<close>

theorem disconnect_clears_channels_counterexample:
  "\<not> (connectionState (run calm [CallChannel ''a'', CallOn 0 INSERT 7, CallSubscribe 0, CallDisconnect] new_client) = DISCONNECTED \<and>
      channels (run calm [CallChannel ''a'', CallOn 0 INSERT 7, CallSubscribe 0, CallDisconnect] new_client) = [] \<and>
      messageQueue (run calm [CallChannel ''a'', CallOn 0 INSERT 7, CallSubscribe 0, CallDisconnect] new_client) = [] \<and>
      handlers_of (run calm [CallChannel ''a'', CallOn 0 INSERT 7, CallSubscribe 0, CallDisconnect] new_client) 0 INSERT = None \<and>
      \<not> isSubscribed (run calm [CallChannel ''a'', CallOn 0 INSERT 7, CallSubscribe 0, CallDisconnect] new_client) 0)"
  by (simp add: eval_defs)

lemma stale_channel_after_disconnect:
  "isSubscribed (run calm [CallChannel ''a'', CallOn 0 INSERT 7, CallSubscribe 0, CallDisconnect] new_client) 0 \<and>
   handlers_of (run calm [CallChannel ''a'', CallOn 0 INSERT 7, CallSubscribe 0, CallDisconnect] new_client) 0 INSERT = Some [7]"
  by (simp add: eval_defs)

section \<open>Subscribing before the connection is open\<close>

lemma subscribe_twice: "subscribe env r (subscribe env r s) = subscribe env r s"
  by (simp add: subscribe_def handleChannelSubscribe_def Let_def split: option.splits)

text \<open>
  Claim C1 at the lazy connect. Two calls of \<^verbatim>\<open>subscribe()\<close> on a new Channel of a
  disconnected client queue one subscribe frame; when the socket opens, the flush
  transmits it and \<^verbatim>\<open>resubscribeChannels\<close> transmits a second one: two subscribe
  frames for the channel are on the wire.
\<close>

theorem lazy_connect_sends_subscribe_twice:
  "messageQueue (run calm [CallChannel ''a'', CallSubscribe 0, CallSubscribe 0] new_client)
     = [SubscribeFrame ''a''] \<and>
   wire (run calm [CallChannel ''a'', CallSubscribe 0, CallSubscribe 0, WsOpen 0] new_client)
     = [(0, SubscribeFrame ''a''), (0, SubscribeFrame ''a'')]"
  by (simp add: eval_defs)

text \<open>
  When \<^verbatim>\<open>storage.getItem\<close> throws in the \<^verbatim>\<open>connect\<close> of a first \<^verbatim>\<open>subscribe()\<close>, the
  exception reaches the application and the client is left \<open>CONNECTING\<close> without a
  socket and without a reconnect timer; the Channel is subscribed and its frame queued.
\<close>

lemma getItem_throws_leaves_connecting:
  "connectionState (run (calm\<lparr>getItem_throws := \<lambda>i. True\<rparr>)
      [CallChannel ''a'', CallSubscribe 0] new_client) = CONNECTING \<and>
   ws (run (calm\<lparr>getItem_throws := \<lambda>i. True\<rparr>)
      [CallChannel ''a'', CallSubscribe 0] new_client) = None \<and>
   reconnectTimeout (run (calm\<lparr>getItem_throws := \<lambda>i. True\<rparr>)
      [CallChannel ''a'', CallSubscribe 0] new_client) = None \<and>
   uncaught (run (calm\<lparr>getItem_throws := \<lambda>i. True\<rparr>)
      [CallChannel ''a'', CallSubscribe 0] new_client) = 1 \<and>
   isSubscribed (run (calm\<lparr>getItem_throws := \<lambda>i. True\<rparr>)
      [CallChannel ''a'', CallSubscribe 0] new_client) 0 \<and>
   messageQueue (run (calm\<lparr>getItem_throws := \<lambda>i. True\<rparr>)
      [CallChannel ''a'', CallSubscribe 0] new_client) = [SubscribeFrame ''a'']"
  by (simp add: eval_defs)

section \<open>Callbacks of a socket after disconnect\<close>

lemma close_after_disconnect: "ws_onclose (disconnect s) = disconnect s"
  by (simp add: ws_onclose_def handleDisconnect_def disconnect_def stopHeartbeat_def
      stopReconnect_def Let_def split: option.splits)

lemma open_after_disconnect:
  "connectionState (ws_onopen env (disconnect s)) = CONNECTED \<and>
   heartbeatInterval (ws_onopen env (disconnect s)) = Some 30000"
  by (simp add: ws_onopen_def startHeartbeat_def stopHeartbeat_def HEARTBEAT_INTERVAL_MS_def)

text \<open>
  Claim C5 at \<^verbatim>\<open>connect()\<close>, \<^verbatim>\<open>disconnect()\<close>, then the open event of the pending
  socket: the open callback does not look at the state, so the client ends up
  \<open>CONNECTED\<close> with the heartbeat timer running (and without a socket handle).
\<close>

theorem open_after_disconnect_is_not_ignored:
  "connectionState (run calm [CallConnect] new_client) = CONNECTING \<and>
   connectionState (run calm [CallConnect, CallDisconnect] new_client) = DISCONNECTED \<and>
   heartbeatInterval (run calm [CallConnect, CallDisconnect] new_client) = None \<and>
   connectionState (run calm [CallConnect, CallDisconnect, WsOpen 0] new_client) = CONNECTED \<and>
   heartbeatInterval (run calm [CallConnect, CallDisconnect, WsOpen 0] new_client) = Some 30000"
  by (simp add: eval_defs)

end
